theory Spec2Isabelle
  imports Complex_Main
begin

section \<open>NestJS HTTP exceptions\<close>

text \<open>
  The exception classes of \<^verbatim>\<open>@nestjs/common\<close> that the repository throws. Each
  carries its message; the generic \<^verbatim>\<open>HttpException\<close> also carries the status it
  was built with. Every class below extends \<^verbatim>\<open>HttpException\<close>.
\<close>

datatype http_exception =
    BadRequestException string
  | UnauthorizedException string
  | ForbiddenException string
  | NotFoundException string
  | ConflictException string
  | RequestTimeoutException string
  | PayloadTooLargeException string
  | InternalServerErrorException string
  | ServiceUnavailableException string
  | HttpException string nat

fun getStatus :: "http_exception \<Rightarrow> nat" where
  "getStatus (BadRequestException m) = 400"
| "getStatus (UnauthorizedException m) = 401"
| "getStatus (ForbiddenException m) = 403"
| "getStatus (NotFoundException m) = 404"
| "getStatus (ConflictException m) = 409"
| "getStatus (RequestTimeoutException m) = 408"
| "getStatus (PayloadTooLargeException m) = 413"
| "getStatus (InternalServerErrorException m) = 500"
| "getStatus (ServiceUnavailableException m) = 503"
| "getStatus (HttpException m st) = st"

section \<open>RedisService (src/redis/redis.service.ts)\<close>

text \<open>
  The commands the service sends through the node-redis client, one constructor per
  client method the service calls. \<^verbatim>\<open>SET\<close> carries the \<^verbatim>\<open>EX\<close> option when the
  service passes one.
\<close>

datatype redis_command =
    GET string
  | SET string string "int option"
  | DEL string
  | EXISTS string
  | EXPIRE string int
  | TTL string
  | HSET string string string
  | HGET string string
  | HGETALL string
  | HDEL string string
  | HKEYS string
  | HVALS string
  | HLEN string
  | FLUSHALL
  | KEYS string
  | DBSIZE
  | INFO "string option"

datatype redis_reply =
    ReplyUndefined
  | ReplyNull
  | ReplyString string
  | ReplyNumber int
  | ReplyList "string list"
  | ReplyRecord "(string \<times> string) list"

text \<open>
  The client object of the \<^verbatim>\<open>redis\<close> package: its \<^verbatim>\<open>isReady\<close> getter, and what a
  command awaited on it gives (a rejection \<open>Inl\<close> with the library's message, or the
  reply).
\<close>

record RedisClientType =
  isReady :: bool
  sendCommand :: "redis_command \<Rightarrow> string + redis_reply"

record RedisService =
  client :: "RedisClientType option"
  isConnected :: bool

datatype redis_failure =
    Thrown http_exception
  | CommandRejected string

text \<open>
  What a call of the service does: the value it resolves to or the failure it throws,
  and the commands it issued on the client, in order.
\<close>

type_synonym redis_outcome = "(redis_failure + redis_reply) \<times> redis_command list"

text \<open>
  \<^verbatim>\<open>if (!this.client?.isReady || !this.isConnected) throw new BadRequestException(...)\<close>;
  \<^verbatim>\<open>return this.client\<close>. With no client, \<^verbatim>\<open>this.client?.isReady\<close> is undefined.
\<close>

definition getClientOrThrow :: "RedisService \<Rightarrow> http_exception + RedisClientType" where
  "getClientOrThrow s =
     (case client s of
        None \<Rightarrow> Inl (BadRequestException ''Redis client is not connected or initialized'')
      | Some c \<Rightarrow>
          if \<not> isReady c \<or> \<not> isConnected s
          then Inl (BadRequestException ''Redis client is not connected or initialized'')
          else Inr c)"

text \<open>\<^verbatim>\<open>return this.isConnected && this.client?.isReady === true\<close>\<close>

definition isAvailable :: "RedisService \<Rightarrow> bool" where
  "isAvailable s =
     (isConnected s \<and> (case client s of None \<Rightarrow> False | Some c \<Rightarrow> isReady c = True))"

text \<open>
  Every data operation starts with \<^verbatim>\<open>const client = this.getClientOrThrow()\<close> and then
  awaits one command on that client.
\<close>

definition await_command :: "RedisClientType \<Rightarrow> redis_command \<Rightarrow> redis_outcome" where
  "await_command c cmd =
     (case sendCommand c cmd of
        Inl e \<Rightarrow> (Inl (CommandRejected e), [cmd])
      | Inr r \<Rightarrow> (Inr r, [cmd]))"

definition redis_get :: "RedisService \<Rightarrow> string \<Rightarrow> redis_outcome" where
  "redis_get s key =
     (case getClientOrThrow s of
        Inl e \<Rightarrow> (Inl (Thrown e), [])
      | Inr c \<Rightarrow> await_command c (GET key))"

text \<open>\<^verbatim>\<open>if (ttl) return await client.set(key, value, { EX: ttl })\<close>: an absent or zero
  \<^verbatim>\<open>ttl\<close> is falsy and gives the plain \<^verbatim>\<open>SET\<close>.\<close>

definition redis_set :: "RedisService \<Rightarrow> string \<Rightarrow> string \<Rightarrow> int option \<Rightarrow> redis_outcome" where
  "redis_set s key v ttl =
     (case getClientOrThrow s of
        Inl e \<Rightarrow> (Inl (Thrown e), [])
      | Inr c \<Rightarrow>
          (case ttl of
             None \<Rightarrow> await_command c (SET key v None)
           | Some t \<Rightarrow>
               if t \<noteq> 0 then await_command c (SET key v (Some t))
               else await_command c (SET key v None)))"

definition redis_del :: "RedisService \<Rightarrow> string \<Rightarrow> redis_outcome" where
  "redis_del s key =
     (case getClientOrThrow s of
        Inl e \<Rightarrow> (Inl (Thrown e), [])
      | Inr c \<Rightarrow> await_command c (DEL key))"

definition redis_exists :: "RedisService \<Rightarrow> string \<Rightarrow> redis_outcome" where
  "redis_exists s key =
     (case getClientOrThrow s of
        Inl e \<Rightarrow> (Inl (Thrown e), [])
      | Inr c \<Rightarrow> await_command c (EXISTS key))"

definition redis_expire :: "RedisService \<Rightarrow> string \<Rightarrow> int \<Rightarrow> redis_outcome" where
  "redis_expire s key seconds =
     (case getClientOrThrow s of
        Inl e \<Rightarrow> (Inl (Thrown e), [])
      | Inr c \<Rightarrow> await_command c (EXPIRE key seconds))"

definition redis_ttl :: "RedisService \<Rightarrow> string \<Rightarrow> redis_outcome" where
  "redis_ttl s key =
     (case getClientOrThrow s of
        Inl e \<Rightarrow> (Inl (Thrown e), [])
      | Inr c \<Rightarrow> await_command c (TTL key))"

definition redis_hset :: "RedisService \<Rightarrow> string \<Rightarrow> string \<Rightarrow> string \<Rightarrow> redis_outcome" where
  "redis_hset s key field v =
     (case getClientOrThrow s of
        Inl e \<Rightarrow> (Inl (Thrown e), [])
      | Inr c \<Rightarrow> await_command c (HSET key field v))"

text \<open>\<^verbatim>\<open>const result = await client.hGet(key, field); return result ?? null\<close>\<close>

definition redis_hget :: "RedisService \<Rightarrow> string \<Rightarrow> string \<Rightarrow> redis_outcome" where
  "redis_hget s key field =
     (case getClientOrThrow s of
        Inl e \<Rightarrow> (Inl (Thrown e), [])
      | Inr c \<Rightarrow>
          (case await_command c (HGET key field) of
             (Inr ReplyUndefined, cmds) \<Rightarrow> (Inr ReplyNull, cmds)
           | other \<Rightarrow> other))"

definition redis_hgetall :: "RedisService \<Rightarrow> string \<Rightarrow> redis_outcome" where
  "redis_hgetall s key =
     (case getClientOrThrow s of
        Inl e \<Rightarrow> (Inl (Thrown e), [])
      | Inr c \<Rightarrow> await_command c (HGETALL key))"

definition redis_hdel :: "RedisService \<Rightarrow> string \<Rightarrow> string \<Rightarrow> redis_outcome" where
  "redis_hdel s key field =
     (case getClientOrThrow s of
        Inl e \<Rightarrow> (Inl (Thrown e), [])
      | Inr c \<Rightarrow> await_command c (HDEL key field))"

definition redis_hkeys :: "RedisService \<Rightarrow> string \<Rightarrow> redis_outcome" where
  "redis_hkeys s key =
     (case getClientOrThrow s of
        Inl e \<Rightarrow> (Inl (Thrown e), [])
      | Inr c \<Rightarrow> await_command c (HKEYS key))"

definition redis_hvals :: "RedisService \<Rightarrow> string \<Rightarrow> redis_outcome" where
  "redis_hvals s key =
     (case getClientOrThrow s of
        Inl e \<Rightarrow> (Inl (Thrown e), [])
      | Inr c \<Rightarrow> await_command c (HVALS key))"

definition redis_hlen :: "RedisService \<Rightarrow> string \<Rightarrow> redis_outcome" where
  "redis_hlen s key =
     (case getClientOrThrow s of
        Inl e \<Rightarrow> (Inl (Thrown e), [])
      | Inr c \<Rightarrow> await_command c (HLEN key))"

definition redis_flushAll :: "RedisService \<Rightarrow> redis_outcome" where
  "redis_flushAll s =
     (case getClientOrThrow s of
        Inl e \<Rightarrow> (Inl (Thrown e), [])
      | Inr c \<Rightarrow> await_command c FLUSHALL)"

definition redis_keys :: "RedisService \<Rightarrow> string \<Rightarrow> redis_outcome" where
  "redis_keys s pattern =
     (case getClientOrThrow s of
        Inl e \<Rightarrow> (Inl (Thrown e), [])
      | Inr c \<Rightarrow> await_command c (KEYS pattern))"

definition redis_dbSize :: "RedisService \<Rightarrow> redis_outcome" where
  "redis_dbSize s =
     (case getClientOrThrow s of
        Inl e \<Rightarrow> (Inl (Thrown e), [])
      | Inr c \<Rightarrow> await_command c DBSIZE)"

definition redis_info :: "RedisService \<Rightarrow> string option \<Rightarrow> redis_outcome" where
  "redis_info s section_name =
     (case getClientOrThrow s of
        Inl e \<Rightarrow> (Inl (Thrown e), [])
      | Inr c \<Rightarrow> await_command c (INFO section_name))"

text \<open>The outcome of a call that threw in \<^verbatim>\<open>getClientOrThrow\<close>: nothing was sent.\<close>

definition not_connected :: redis_outcome where
  "not_connected =
     (Inl (Thrown (BadRequestException ''Redis client is not connected or initialized'')), [])"

section \<open>PrismaClientExceptionFilter (src/common/filters/prisma-client-exception)\<close>

text \<open>
  What the filter is handed: a \<^verbatim>\<open>Prisma.PrismaClientKnownRequestError\<close> (with its
  \<^verbatim>\<open>code\<close> and \<^verbatim>\<open>message\<close>), a \<^verbatim>\<open>Prisma.PrismaClientValidationError\<close> (with its
  message), or anything else (the parameter has type \<^verbatim>\<open>any\<close>).
\<close>

record PrismaClientKnownRequestError =
  code :: string
  message :: string

datatype caught =
    KnownRequestError PrismaClientKnownRequestError
  | ValidationError string
  | OtherError string

text \<open>
  The \<^verbatim>\<open>switch (code)\<close> of the filter, one pair per \<^verbatim>\<open>case\<close> in source order, with
  the exception the case throws.
\<close>

definition known_request_cases :: "(string \<times> http_exception) list" where
  "known_request_cases =
     [(''P1000'', UnauthorizedException ''Authentication failed against database server. Invalid database credentials provided.''),
      (''P1001'', ServiceUnavailableException ''Cannot reach database server. Please ensure your database server is running.''),
      (''P1002'', ServiceUnavailableException ''Database server connection timed out. Please try again.''),
      (''P1003'', NotFoundException ''Database does not exist at the specified path.''),
      (''P1008'', RequestTimeoutException ''Database operation timed out. Please try again.''),
      (''P1009'', ConflictException ''Database already exists on the database server.''),
      (''P1010'', ForbiddenException ''Database user was denied access to the database.''),
      (''P1011'', ServiceUnavailableException ''Error opening a TLS connection to the database.''),
      (''P1012'', BadRequestException ''Invalid Prisma schema. Please check your schema configuration.''),
      (''P1013'', BadRequestException ''The provided database connection string is invalid.''),
      (''P1014'', NotFoundException ''The underlying table or collection does not exist.''),
      (''P1015'', BadRequestException ''Your Prisma schema is using features not supported by your database version.''),
      (''P1016'', BadRequestException ''Raw query has an incorrect number of parameters. Expected parameters do not match actual.''),
      (''P1017'', ServiceUnavailableException ''Server has closed the connection.''),
      (''P2000'', BadRequestException ''The provided value is too long for the column.''),
      (''P2001'', NotFoundException ''The record searched for in the where condition does not exist.''),
      (''P2002'', ConflictException ''Unique constraint failed. A record with this value already exists.''),
      (''P2003'', ConflictException ''Foreign key constraint failed on the specified field.''),
      (''P2004'', ConflictException ''A constraint failed on the database.''),
      (''P2005'', BadRequestException ''The value stored in the database is invalid for the field type.''),
      (''P2006'', BadRequestException ''The provided value for the field is not valid.''),
      (''P2007'', BadRequestException ''Data validation error encountered.''),
      (''P2008'', BadRequestException ''Failed to parse the query.''),
      (''P2009'', BadRequestException ''Failed to validate the query.''),
      (''P2010'', BadRequestException ''Raw query failed to execute.''),
      (''P2011'', BadRequestException ''Null constraint violation on the specified constraint.''),
      (''P2012'', BadRequestException ''Missing a required value.''),
      (''P2013'', BadRequestException ''Missing required argument for field.''),
      (''P2014'', ConflictException ''The change would violate a required relation between models.''),
      (''P2015'', NotFoundException ''A related record could not be found.''),
      (''P2016'', BadRequestException ''Query interpretation error.''),
      (''P2017'', ConflictException ''Records for the relation are not connected.''),
      (''P2018'', NotFoundException ''Required connected records were not found.''),
      (''P2019'', BadRequestException ''Input error encountered.''),
      (''P2020'', BadRequestException ''Value is out of range for the type.''),
      (''P2021'', NotFoundException ''The table does not exist in the current database.''),
      (''P2022'', NotFoundException ''The column does not exist in the current database.''),
      (''P2023'', BadRequestException ''Inconsistent column data encountered.''),
      (''P2024'', ServiceUnavailableException ''Timed out fetching a new connection from the connection pool.''),
      (''P2025'', NotFoundException ''An operation failed because required records were not found.''),
      (''P2026'', BadRequestException ''The current database provider does not support a feature used in the query.''),
      (''P2027'', InternalServerErrorException ''Multiple errors occurred on the database during query execution.''),
      (''P2028'', InternalServerErrorException ''Transaction API error.''),
      (''P2029'', BadRequestException ''Query parameter limit exceeded.''),
      (''P2030'', BadRequestException ''Cannot find a fulltext index to use for the search.''),
      (''P2031'', BadRequestException ''MongoDB server must be run as a replica set for transactions.''),
      (''P2033'', BadRequestException ''Number used in query does not fit into a 64 bit signed integer.''),
      (''P2034'', ConflictException ''Transaction failed due to a write conflict or deadlock. Please retry.''),
      (''P2035'', InternalServerErrorException ''Assertion violation on the database.''),
      (''P2036'', InternalServerErrorException ''Error in external connector.''),
      (''P2037'', ServiceUnavailableException ''Too many database connections opened.''),
      (''P3000'', InternalServerErrorException ''Failed to create database.''),
      (''P3001'', BadRequestException ''Migration is possible with destructive changes and possible data loss.''),
      (''P3002'', InternalServerErrorException ''The attempted migration was rolled back.''),
      (''P3003'', BadRequestException ''The format of migrations has changed and is no longer valid.''),
      (''P3004'', BadRequestException ''Cannot alter a system database.''),
      (''P3005'', BadRequestException ''The database schema is not empty.''),
      (''P3006'', InternalServerErrorException ''Migration failed to apply cleanly to the shadow database.''),
      (''P3007'', BadRequestException ''Preview features are not allowed in schema engine. Please remove them from your data model.''),
      (''P3008'', ConflictException ''The migration is already recorded as applied in the database.''),
      (''P3009'', InternalServerErrorException ''Failed migrations found in target database. Cannot apply new migrations.''),
      (''P3010'', BadRequestException ''Migration name is too long. Must not exceed 200 characters.''),
      (''P3011'', BadRequestException ''Migration cannot be rolled back because it was never applied.''),
      (''P3012'', BadRequestException ''Migration cannot be rolled back because it is not in a failed state.''),
      (''P3013'', BadRequestException ''Datasource provider arrays are no longer supported in migrate.''),
      (''P3014'', InternalServerErrorException ''Could not create shadow database. Ensure the database user has permission to create databases.''),
      (''P3015'', NotFoundException ''Migration file not found.''),
      (''P3016'', InternalServerErrorException ''Database reset failed. Could not clean up database entirely.''),
      (''P3017'', NotFoundException ''The migration could not be found.''),
      (''P3018'', InternalServerErrorException ''A migration failed to apply. Cannot apply new migrations.''),
      (''P3019'', BadRequestException ''Datasource provider in schema does not match the one in migration_lock.toml.''),
      (''P3020'', BadRequestException ''Automatic shadow database creation is disabled on Azure SQL. Please set up manually.''),
      (''P3021'', BadRequestException ''Foreign keys cannot be created on this database.''),
      (''P3022'', BadRequestException ''Direct execution of DDL SQL statements is disabled on this database.''),
      (''P3023'', BadRequestException ''ExternalTables and externalEnums must contain fully qualified identifiers.''),
      (''P3024'', BadRequestException ''ExternalTables and externalEnums must contain simple identifiers without schema names.''),
      (''P4000'', InternalServerErrorException ''Introspection operation failed to produce a schema file.''),
      (''P4001'', NotFoundException ''The introspected database was empty.''),
      (''P4002'', BadRequestException ''The schema of the introspected database was inconsistent.''),
      (''P5011'', HttpException ''Request volume exceeded the limit. Implement a back-off strategy and try again.'' 429),
      (''P6000'', InternalServerErrorException ''Generic Accelerate error.''),
      (''P6001'', BadRequestException ''The Accelerate URL is malformed. Must use prisma:// protocol.''),
      (''P6002'', UnauthorizedException ''The API Key in the connection string is invalid.''),
      (''P6003'', HttpException ''Plan limit has been reached. Included usage exceeded.'' 402),
      (''P6004'', RequestTimeoutException ''Global timeout of Accelerate has been exceeded.''),
      (''P6005'', BadRequestException ''Invalid parameters supplied to Accelerate.''),
      (''P6006'', BadRequestException ''The chosen Prisma version is not compatible with Accelerate.''),
      (''P6008'', ServiceUnavailableException ''Engine failed to start. Could not establish connection to database.''),
      (''P6009'', PayloadTooLargeException ''Response size limit of Accelerate has been exceeded.''),
      (''P6010'', ForbiddenException ''Your Accelerate project is disabled. Please enable it to use.'')]"

text \<open>
  \<^verbatim>\<open>catch(exception: any, host: ArgumentsHost): void\<close> never returns: every path
  throws. The result is the exception thrown (\<open>Inl\<close>); \<^verbatim>\<open>host\<close> is not read.
\<close>

definition catch :: "caught \<Rightarrow> http_exception + unit" where
  "catch exception =
     (case exception of
        KnownRequestError e \<Rightarrow>
          (case map_of known_request_cases (code e) of
             Some thrown \<Rightarrow> Inl thrown
           | None \<Rightarrow> Inl (InternalServerErrorException ''An unexpected database error occurred.''))
      | ValidationError msg \<Rightarrow>
          Inl (BadRequestException (''Database validation error: '' @ msg))
      | OtherError msg \<Rightarrow>
          Inl (InternalServerErrorException ''An unexpected error occurred.''))"

section \<open>ClerkStrategy.validate (src/auth/clerk.strategy.ts)\<close>

text \<open>The one header the strategy reads: \<^verbatim>\<open>req.headers.authorization\<close>.\<close>

record Request =
  authorization :: "string option"

text \<open>
  \<^verbatim>\<open>String.prototype.split\<close> with a one-character separator: the pieces between the
  separators, so the empty string gives one empty piece. \<^verbatim>\<open>Array.prototype.pop\<close>
  gives the last element, or undefined on an empty array.
\<close>

fun js_split :: "char \<Rightarrow> string \<Rightarrow> string list" where
  "js_split sep [] = [[]]"
| "js_split sep (x # xs) =
     (if x = sep then [] # js_split sep xs
      else (case js_split sep xs of
              [] \<Rightarrow> [[x]]
            | w # ws \<Rightarrow> (x # w) # ws))"

definition js_pop :: "'a list \<Rightarrow> 'a option" where
  "js_pop xs = (if xs = [] then None else Some (last xs))"

text \<open>\<^verbatim>\<open>const token = req.headers.authorization?.split(' ').pop()\<close>\<close>

definition bearer_token :: "Request \<Rightarrow> string option" where
  "bearer_token req =
     (case authorization req of
        None \<Rightarrow> None
      | Some header \<Rightarrow> js_pop (js_split CHR '' '' header))"

text \<open>
  What a request handler can do besides returning: verify a token with
  \<^verbatim>\<open>jsonwebtoken\<close> (which fetches the signing key), write to the console, call a
  method of the injected \<^verbatim>\<open>UserService\<close> (the method's name and its argument), or
  write to the database.
\<close>

datatype effect =
    JwtVerify string
  | ConsoleError string
  | UserServiceCall string string
  | DatabaseWrite string

fun is_user_sync :: "effect \<Rightarrow> bool" where
  "is_user_sync (UserServiceCall m a) = True"
| "is_user_sync (DatabaseWrite q) = True"
| "is_user_sync (JwtVerify t) = False"
| "is_user_sync (ConsoleError t) = False"

text \<open>
  \<^verbatim>\<open>validate(req)\<close>. \<open>jwt_verify\<close> is \<^verbatim>\<open>jwt.verify(token, this.getSigningKey, {}, cb)\<close>
  as a promise: the error it rejects with, or the decoded token it resolves to. The
  result object is its list of properties. A missing or empty token throws before the
  \<^verbatim>\<open>try\<close>; a rejection is caught, logged and rethrown as \<^verbatim>\<open>Invalid token\<close>. The
  block that would call \<^verbatim>\<open>userService.createClerkUserAndSync\<close> is commented out in
  the source, so no branch here has such a call.
\<close>

definition validate ::
  "(string \<Rightarrow> string + 'claims) \<Rightarrow> Request \<Rightarrow>
     (http_exception + (string \<times> 'claims) list) \<times> effect list" where
  "validate jwt_verify req =
     (case bearer_token req of
        None \<Rightarrow> (Inl (UnauthorizedException ''No token provided''), [])
      | Some token \<Rightarrow>
          if token = [] then (Inl (UnauthorizedException ''No token provided''), [])
          else
            (case jwt_verify token of
               Inl err \<Rightarrow>
                 (Inl (UnauthorizedException ''Invalid token''),
                  [JwtVerify token, ConsoleError ''Token validation error:''])
             | Inr decodedToken \<Rightarrow>
                 (Inr [(''decodedToken'', decodedToken)], [JwtVerify token])))"

section \<open>UserService.createUser (src/user/user.service.ts)\<close>

text \<open>
  The fields of the Clerk webhook payload that \<^verbatim>\<open>createUser\<close> reads. An entry of
  \<^verbatim>\<open>email_addresses\<close> has an \<^verbatim>\<open>id\<close> and an \<^verbatim>\<open>email_address\<close>; the list itself is read
  through \<^verbatim>\<open>?.\<close>, so it may be absent. The other three are \<^verbatim>\<open>string | null\<close>.
\<close>

record ClerkEmailAddress =
  email_id :: string
  email_address :: string

record ClerkUser =
  email_addresses :: "ClerkEmailAddress list option"
  primary_email_address_id :: "string option"
  first_name :: "string option"
  last_name :: "string option"

text \<open>A row of the user table, with the columns of \<^verbatim>\<open>UserResponseDto\<close>.\<close>

record User =
  user_id :: string
  email :: string
  name :: "string option"
  createdAt :: nat
  updatedAt :: nat

record IUser =
  user :: User
  toBeSynced :: "bool option"

text \<open>
  The database behind \<^verbatim>\<open>PrismaService\<close>: the rows of the user table, and the write
  queries the service has sent (\<^verbatim>\<open>prisma.user.create\<close> with its \<^verbatim>\<open>data\<close>; update and
  delete with their \<^verbatim>\<open>where\<close> id), whether or not they succeeded.
\<close>

datatype prisma_write =
    UserCreate string string "string option"
  | UserUpdate string string "string option"
  | UserDelete string

record PrismaService =
  users :: "User list"
  writes :: "prisma_write list"

text \<open>\<^verbatim>\<open>prisma.user.findUnique({ where: { id: clerkId } })\<close>: a read, the database stays
  as it is.\<close>

definition findUserById :: "PrismaService \<Rightarrow> string \<Rightarrow> User option" where
  "findUserById prisma clerkId = find (\<lambda>u. user_id u = clerkId) (users prisma)"

text \<open>
  \<^verbatim>\<open>prisma.user.create({ data: { id, email, name } })\<close>. The id is the primary key: a
  second row with the same id is refused with the known request error \<^verbatim>\<open>P2002\<close> and
  nothing is written. The Prisma schema is not among the sources, so whether the email
  column is unique as well is the parameter \<open>email_unique\<close>; \<open>now\<close> is the database
  clock that fills both timestamps.
\<close>

definition user_create ::
  "bool \<Rightarrow> nat \<Rightarrow> PrismaService \<Rightarrow> string \<Rightarrow> string \<Rightarrow> string option \<Rightarrow>
     (PrismaClientKnownRequestError + User) \<times> PrismaService" where
  "user_create email_unique now prisma i e n =
     (let sent = prisma\<lparr>writes := writes prisma @ [UserCreate i e n]\<rparr> in
      if find (\<lambda>u. user_id u = i) (users prisma) \<noteq> None then
        (Inl \<lparr>code = ''P2002'', message = ''Unique constraint failed on the fields: (id)''\<rparr>, sent)
      else if email_unique \<and> find (\<lambda>u. email u = e) (users prisma) \<noteq> None then
        (Inl \<lparr>code = ''P2002'', message = ''Unique constraint failed on the fields: (email)''\<rparr>, sent)
      else
        (let row = \<lparr>user_id = i, email = e, name = n, createdAt = now, updatedAt = now\<rparr>
         in (Inr row, sent\<lparr>users := users prisma @ [row]\<rparr>)))"

text \<open>
  \<^verbatim>\<open>userData.email_addresses?.find((email) => email.id === userData.primary_email_address_id)\<close>
  and then \<^verbatim>\<open>primaryEmail?.email_address || ''\<close>.
\<close>

definition extractEmailFromWebhook :: "ClerkUser \<Rightarrow> string" where
  "extractEmailFromWebhook userData =
     (case email_addresses userData of
        None \<Rightarrow> []
      | Some entries \<Rightarrow>
          (case find (\<lambda>entry. Some (email_id entry) = primary_email_address_id userData) entries of
             None \<Rightarrow> []
           | Some primaryEmail \<Rightarrow>
               if email_address primaryEmail = [] then [] else email_address primaryEmail))"

text \<open>
  \<^verbatim>\<open>String.prototype.trim\<close> on the code units a \<open>char\<close> can hold: tab, line feed,
  vertical tab, form feed, carriage return, space and the no-break space are white
  space.
\<close>

definition is_white_space :: "char \<Rightarrow> bool" where
  "is_white_space c = ((of_char c :: nat) \<in> {9, 10, 11, 12, 13, 32, 160})"

definition trim :: "string \<Rightarrow> string" where
  "trim s = rev (dropWhile is_white_space (rev (dropWhile is_white_space s)))"

text \<open>
  \<^verbatim>\<open>const firstName = userData.first_name || ''\<close>, the same for the last name,
  \<^verbatim>\<open>`${firstName} ${lastName}`.trim()\<close>, and \<^verbatim>\<open>fullName || null\<close>.
\<close>

definition or_empty :: "string option \<Rightarrow> string" where
  "or_empty x = (case x of None \<Rightarrow> [] | Some t \<Rightarrow> t)"

definition extractNameFromWebhook :: "ClerkUser \<Rightarrow> string option" where
  "extractNameFromWebhook userData =
     (let firstName = or_empty (first_name userData);
          lastName = or_empty (last_name userData);
          fullName = trim (firstName @ '' '' @ lastName)
      in if fullName = [] then None else Some fullName)"

text \<open>
  \<^verbatim>\<open>createUser(clerkId, webhookPayload)\<close>: the result it resolves to or the Prisma error
  it rejects with, and the database afterwards. The logger calls are left out.
\<close>

definition createUser ::
  "bool \<Rightarrow> nat \<Rightarrow> PrismaService \<Rightarrow> string \<Rightarrow> ClerkUser \<Rightarrow>
     (PrismaClientKnownRequestError + IUser) \<times> PrismaService" where
  "createUser email_unique now prisma clerkId webhookPayload =
     (case findUserById prisma clerkId of
        Some existingUser \<Rightarrow> (Inr \<lparr>user = existingUser, toBeSynced = None\<rparr>, prisma)
      | None \<Rightarrow>
          (let e = extractEmailFromWebhook webhookPayload;
               n = extractNameFromWebhook webhookPayload
           in case user_create email_unique now prisma clerkId e n of
                (Inl err, prisma') \<Rightarrow> (Inl err, prisma')
              | (Inr created, prisma') \<Rightarrow> (Inr \<lparr>user = created, toBeSynced = None\<rparr>, prisma')))"

section \<open>validateEnv (src/config/env.config.ts)\<close>

text \<open>
  JavaScript values as far as the validators tell them apart. A number is not-a-number,
  an infinity, or finite; a finite double is a rational.
\<close>

datatype js_number = NaN | PosInfinity | NegInfinity | Finite rat

datatype js_value =
    JsUndefined
  | JsNull
  | JsBoolean bool
  | JsNumber js_number
  | JsString string
  | JsObject

text \<open>An instance of the class \<^verbatim>\<open>EnvironmentVariables\<close>: one value per declared property.\<close>

record EnvironmentVariables =
  NODE_ENV :: js_value
  PORT :: js_value
  DATABASE_URL :: js_value
  CLERK_PUBLISHABLE_KEY :: js_value
  CLERK_SECRET_KEY :: js_value
  CLERK_JWKS_URL :: js_value
  CLERK_WEBHOOK_SECRET :: js_value
  REDIS_URL :: js_value

text \<open>\<^verbatim>\<open>enum Environment\<close>: its values.\<close>

definition Environment :: "string list" where
  "Environment = [''development'', ''production'', ''test'']"

text \<open>
  The decorators of class-validator that the class uses, and when a value passes each
  (the library's \<^verbatim>\<open>isEnum\<close>, \<^verbatim>\<open>isNumber\<close> with its default options, \<^verbatim>\<open>min\<close>,
  \<^verbatim>\<open>isString\<close>, \<^verbatim>\<open>isNotEmpty\<close>, \<^verbatim>\<open>isURL\<close>). What validator.js accepts as a URL
  under \<^verbatim>\<open>{ require_tld: false }\<close> is the parameter \<open>isURL\<close>. \<^verbatim>\<open>IsOptional\<close> never
  fails by itself: it switches the property's other validators off when the value is
  undefined or null.
\<close>

datatype constraint =
    IsEnum "string list"
  | IsNumber
  | Min rat
  | IsString
  | IsNotEmpty
  | IsUrl
  | IsOptional

fun passes :: "(string \<Rightarrow> bool) \<Rightarrow> constraint \<Rightarrow> js_value \<Rightarrow> bool" where
  "passes isURL (IsEnum entity) v = (case v of JsString t \<Rightarrow> t \<in> set entity | _ \<Rightarrow> False)"
| "passes isURL IsNumber v = (case v of JsNumber (Finite q) \<Rightarrow> True | _ \<Rightarrow> False)"
| "passes isURL (Min m) v =
     (case v of
        JsNumber (Finite q) \<Rightarrow> m \<le> q
      | JsNumber PosInfinity \<Rightarrow> True
      | _ \<Rightarrow> False)"
| "passes isURL IsString v = (case v of JsString t \<Rightarrow> True | _ \<Rightarrow> False)"
| "passes isURL IsNotEmpty v = (v \<noteq> JsString [] \<and> v \<noteq> JsNull \<and> v \<noteq> JsUndefined)"
| "passes isURL IsUrl v = (case v of JsString t \<Rightarrow> isURL t | _ \<Rightarrow> False)"
| "passes isURL IsOptional v = True"

text \<open>The decorated properties of \<^verbatim>\<open>EnvironmentVariables\<close>, in source order.\<close>

definition decorators :: "(string \<times> (EnvironmentVariables \<Rightarrow> js_value) \<times> constraint list) list" where
  "decorators =
     [(''NODE_ENV'', NODE_ENV, [IsEnum Environment]),
      (''PORT'', PORT, [IsNumber, Min 1]),
      (''DATABASE_URL'', DATABASE_URL, [IsString, IsNotEmpty]),
      (''CLERK_PUBLISHABLE_KEY'', CLERK_PUBLISHABLE_KEY, [IsString, IsNotEmpty]),
      (''CLERK_SECRET_KEY'', CLERK_SECRET_KEY, [IsString, IsNotEmpty]),
      (''CLERK_JWKS_URL'', CLERK_JWKS_URL, [IsUrl, IsNotEmpty]),
      (''CLERK_WEBHOOK_SECRET'', CLERK_WEBHOOK_SECRET, [IsString, IsNotEmpty]),
      (''REDIS_URL'', REDIS_URL, [IsUrl, IsOptional])]"

text \<open>
  \<^verbatim>\<open>validateSync(object, { skipMissingProperties: false })\<close>: one \<^verbatim>\<open>ValidationError\<close>
  per property with a failed constraint, carrying the property's name and the
  constraints that failed.
\<close>

record ValidationError_ =
  property :: string
  constraints :: "constraint list"

definition failed_constraints :: "(string \<Rightarrow> bool) \<Rightarrow> constraint list \<Rightarrow> js_value \<Rightarrow> constraint list" where
  "failed_constraints isURL cs v =
     (if IsOptional \<in> set cs \<and> (v = JsUndefined \<or> v = JsNull) then []
      else filter (\<lambda>c. \<not> passes isURL c v) cs)"

definition validateSync :: "(string \<Rightarrow> bool) \<Rightarrow> EnvironmentVariables \<Rightarrow> ValidationError_ list" where
  "validateSync isURL object =
     concat (map (\<lambda>(nm, field, cs).
                    (let failed = failed_constraints isURL cs (field object)
                     in if failed = [] then [] else [\<lparr>property = nm, constraints = failed\<rparr>]))
                 decorators)"

datatype js_error = Error string

text \<open>
  \<^verbatim>\<open>validateEnv(config)\<close>. \<open>plainToInstance\<close> is class-transformer's
  \<^verbatim>\<open>plainToInstance(EnvironmentVariables, config, { enableImplicitConversion: true })\<close>,
  a parameter here. The \<^verbatim>\<open>console.error\<close> lines before the throw are left out.
\<close>

definition validateEnv ::
  "('config \<Rightarrow> EnvironmentVariables) \<Rightarrow> (string \<Rightarrow> bool) \<Rightarrow> 'config \<Rightarrow>
     js_error + EnvironmentVariables" where
  "validateEnv plainToInstance isURL config =
     (let validatedConfig = plainToInstance config;
          errors = validateSync isURL validatedConfig
      in if length errors > 0 then Inl (Error ''Invalid environment variables'')
         else Inr validatedConfig)"

text \<open>
  The claim's own words, "every class-validator constraint on EnvironmentVariables
  holds", written out property by property.
\<close>

definition every_constraint_holds :: "(string \<Rightarrow> bool) \<Rightarrow> EnvironmentVariables \<Rightarrow> bool" where
  "every_constraint_holds isURL object =
     ((\<exists>t. NODE_ENV object = JsString t \<and> t \<in> {''development'', ''production'', ''test''})
      \<and> (\<exists>q. PORT object = JsNumber (Finite q) \<and> 1 \<le> q)
      \<and> (\<exists>t. DATABASE_URL object = JsString t \<and> t \<noteq> [])
      \<and> (\<exists>t. CLERK_PUBLISHABLE_KEY object = JsString t \<and> t \<noteq> [])
      \<and> (\<exists>t. CLERK_SECRET_KEY object = JsString t \<and> t \<noteq> [])
      \<and> (\<exists>t. CLERK_JWKS_URL object = JsString t \<and> t \<noteq> [] \<and> isURL t)
      \<and> (\<exists>t. CLERK_WEBHOOK_SECRET object = JsString t \<and> t \<noteq> [])
      \<and> (REDIS_URL object = JsUndefined \<or> REDIS_URL object = JsNull
           \<or> (\<exists>t. REDIS_URL object = JsString t \<and> isURL t)))"

section \<open>Properties of RedisService\<close>

lemma getClientOrThrow_unavailable:
  "\<not> isAvailable s \<Longrightarrow>
     getClientOrThrow s = Inl (BadRequestException ''Redis client is not connected or initialized'')"
  by (auto simp: getClientOrThrow_def isAvailable_def split: option.splits)

lemma getClientOrThrow_available:
  "isAvailable s \<Longrightarrow> \<exists>c. client s = Some c \<and> getClientOrThrow s = Inr c"
  by (auto simp: getClientOrThrow_def isAvailable_def split: option.splits)

lemma isAvailable_iff:
  "isAvailable s = False \<longleftrightarrow>
     (client s = None \<or> (\<exists>c. client s = Some c \<and> \<not> isReady c) \<or> \<not> isConnected s)"
  by (auto simp: isAvailable_def split: option.splits)

lemma unavailable_operations:
  assumes "\<not> isAvailable s"
  shows "redis_get s key = not_connected"
    and "redis_set s key v ttl = not_connected"
    and "redis_del s key = not_connected"
    and "redis_exists s key = not_connected"
    and "redis_expire s key seconds = not_connected"
    and "redis_ttl s key = not_connected"
    and "redis_hset s key field v = not_connected"
    and "redis_hget s key field = not_connected"
    and "redis_hgetall s key = not_connected"
    and "redis_hdel s key field = not_connected"
    and "redis_hkeys s key = not_connected"
    and "redis_hvals s key = not_connected"
    and "redis_hlen s key = not_connected"
    and "redis_flushAll s = not_connected"
    and "redis_keys s pattern = not_connected"
    and "redis_dbSize s = not_connected"
    and "redis_info s section_name = not_connected"
  using getClientOrThrow_unavailable [OF assms]
  by (simp_all add: not_connected_def redis_get_def redis_set_def redis_del_def redis_exists_def redis_expire_def redis_ttl_def redis_hset_def redis_hget_def redis_hgetall_def redis_hdel_def redis_hkeys_def redis_hvals_def redis_hlen_def redis_flushAll_def redis_keys_def redis_dbSize_def redis_info_def)

lemma available_operation_sends:
  assumes "isAvailable s"
  shows "\<exists>c. client s = Some c \<and> redis_get s key = await_command c (GET key)"
    and "\<exists>c. client s = Some c \<and> redis_del s key = await_command c (DEL key)"
    and "\<exists>c. client s = Some c \<and> redis_flushAll s = await_command c FLUSHALL"
  using getClientOrThrow_available [OF assms]
  by (auto simp: redis_get_def redis_del_def redis_flushAll_def)

lemma await_command_sends_one: "snd (await_command c cmd) = [cmd]"
  by (simp add: await_command_def split: sum.splits)

text \<open>
  Claim C10. Every public data operation of \<^verbatim>\<open>RedisService\<close> (get, set, del, exists,
  expire, ttl, hset, hget, hgetall, hdel, hkeys, hvals, hlen, flushAll, keys, dbSize,
  info) throws \<^verbatim>\<open>BadRequestException\<close> and issues no Redis command whenever the client
  is absent, not ready, or the service is not connected; and that condition is exactly
  the one under which \<^verbatim>\<open>isAvailable()\<close> returns false.
\<close>

theorem redis_operations_throw_when_unavailable:
  "(isAvailable s = False \<longleftrightarrow>
      (client s = None \<or> (\<exists>c. client s = Some c \<and> \<not> isReady c) \<or> \<not> isConnected s))
   \<and> not_connected =
         (Inl (Thrown (BadRequestException ''Redis client is not connected or initialized'')), [])
   \<and> (isAvailable s = False \<longrightarrow>
         redis_get s key = not_connected
       \<and> redis_set s key v ttl = not_connected
       \<and> redis_del s key = not_connected
       \<and> redis_exists s key = not_connected
       \<and> redis_expire s key seconds = not_connected
       \<and> redis_ttl s key = not_connected
       \<and> redis_hset s key field v = not_connected
       \<and> redis_hget s key field = not_connected
       \<and> redis_hgetall s key = not_connected
       \<and> redis_hdel s key field = not_connected
       \<and> redis_hkeys s key = not_connected
       \<and> redis_hvals s key = not_connected
       \<and> redis_hlen s key = not_connected
       \<and> redis_flushAll s = not_connected
       \<and> redis_keys s pattern = not_connected
       \<and> redis_dbSize s = not_connected
       \<and> redis_info s section_name = not_connected)"
proof -
  have cond: "isAvailable s = False \<longleftrightarrow>
      (client s = None \<or> (\<exists>c. client s = Some c \<and> \<not> isReady c) \<or> \<not> isConnected s)"
    by (rule isAvailable_iff)
  have ops: "isAvailable s = False \<longrightarrow>
         redis_get s key = not_connected
       \<and> redis_set s key v ttl = not_connected
       \<and> redis_del s key = not_connected
       \<and> redis_exists s key = not_connected
       \<and> redis_expire s key seconds = not_connected
       \<and> redis_ttl s key = not_connected
       \<and> redis_hset s key field v = not_connected
       \<and> redis_hget s key field = not_connected
       \<and> redis_hgetall s key = not_connected
       \<and> redis_hdel s key field = not_connected
       \<and> redis_hkeys s key = not_connected
       \<and> redis_hvals s key = not_connected
       \<and> redis_hlen s key = not_connected
       \<and> redis_flushAll s = not_connected
       \<and> redis_keys s pattern = not_connected
       \<and> redis_dbSize s = not_connected
       \<and> redis_info s section_name = not_connected"
    by (simp add: unavailable_operations)
  show ?thesis
    using cond ops by (simp only: not_connected_def simp_thms)
qed

theorem redis_operations_throw_when_unavailable_witness:
  "isAvailable \<lparr>client = Some \<lparr>isReady = True, sendCommand = (\<lambda>cmd. Inr ReplyNull)\<rparr>,
                 isConnected = False\<rparr> = False
   \<and> redis_get \<lparr>client = Some \<lparr>isReady = True, sendCommand = (\<lambda>cmd. Inr ReplyNull)\<rparr>,
                 isConnected = False\<rparr> ''session'' =
       (Inl (Thrown (BadRequestException ''Redis client is not connected or initialized'')), [])
   \<and> redis_set \<lparr>client = None, isConnected = True\<rparr> ''session'' ''abc'' (Some 60) =
       (Inl (Thrown (BadRequestException ''Redis client is not connected or initialized'')), [])
   \<and> redis_flushAll \<lparr>client = Some \<lparr>isReady = False, sendCommand = (\<lambda>cmd. Inr ReplyNull)\<rparr>,
                      isConnected = True\<rparr> =
       (Inl (Thrown (BadRequestException ''Redis client is not connected or initialized'')), [])"
  using
    redis_operations_throw_when_unavailable
      [of "\<lparr>client = Some \<lparr>isReady = True, sendCommand = (\<lambda>cmd. Inr ReplyNull)\<rparr>,
            isConnected = False\<rparr>" "''session''"]
    redis_operations_throw_when_unavailable
      [where s = "\<lparr>client = None, isConnected = True\<rparr>" and key = "''session''"
         and v = "''abc''" and ttl = "Some 60"]
    redis_operations_throw_when_unavailable
      [of "\<lparr>client = Some \<lparr>isReady = False, sendCommand = (\<lambda>cmd. Inr ReplyNull)\<rparr>,
            isConnected = True\<rparr>"]
  by (simp add: isAvailable_def)

section \<open>Properties of PrismaClientExceptionFilter\<close>

lemma known_request_cases_distinct: "distinct (map fst known_request_cases)"
  by (simp add: known_request_cases_def)

lemma known_request_cases_P2002:
  "map_of known_request_cases ''P2002'' =
     Some (ConflictException ''Unique constraint failed. A record with this value already exists.'')"
  by (simp add: known_request_cases_def)

lemma catch_always_throws: "\<exists>thrown. catch exception = Inl thrown"
  by (cases exception) (simp_all add: catch_def split: option.splits)

lemma catch_outside_table:
  assumes "code e \<notin> set (map fst known_request_cases)"
  shows "catch (KnownRequestError e) =
           Inl (InternalServerErrorException ''An unexpected database error occurred.'')"
proof -
  from assms have "map_of known_request_cases (code e) = None"
    by (simp add: map_of_eq_None_iff)
  then show ?thesis by (simp add: catch_def)
qed

text \<open>
  Claim C8. For every \<^verbatim>\<open>PrismaClientKnownRequestError\<close> the filter throws an
  \<^verbatim>\<open>HttpException\<close> that depends on the error's code alone: two errors with the same
  code give the same exception, \<^verbatim>\<open>P2002\<close> gives a \<^verbatim>\<open>ConflictException\<close> (status 409),
  and a code that is no \<^verbatim>\<open>case\<close> of the switch gives an
  \<^verbatim>\<open>InternalServerErrorException\<close> (status 500). Every
  \<^verbatim>\<open>PrismaClientValidationError\<close> gives a \<^verbatim>\<open>BadRequestException\<close> (status 400).
\<close>

theorem prisma_filter_maps_by_code:
  "(code e = code e' \<longrightarrow> catch (KnownRequestError e) = catch (KnownRequestError e'))
   \<and> (\<exists>thrown. catch (KnownRequestError e) = Inl thrown)
   \<and> (code e = ''P2002'' \<longrightarrow>
        catch (KnownRequestError e) =
          Inl (ConflictException ''Unique constraint failed. A record with this value already exists.''))
   \<and> getStatus (ConflictException ''Unique constraint failed. A record with this value already exists.'') = 409
   \<and> (code e \<notin> set (map fst known_request_cases) \<longrightarrow>
        catch (KnownRequestError e) =
          Inl (InternalServerErrorException ''An unexpected database error occurred.''))
   \<and> getStatus (InternalServerErrorException ''An unexpected database error occurred.'') = 500
   \<and> catch (ValidationError msg) = Inl (BadRequestException (''Database validation error: '' @ msg))
   \<and> getStatus (BadRequestException (''Database validation error: '' @ msg)) = 400"
proof -
  have same: "code e = code e' \<longrightarrow> catch (KnownRequestError e) = catch (KnownRequestError e')"
    by (simp add: catch_def)
  have throws: "\<exists>thrown. catch (KnownRequestError e) = Inl thrown"
    by (rule catch_always_throws)
  have conflict: "code e = ''P2002'' \<longrightarrow>
        catch (KnownRequestError e) =
          Inl (ConflictException ''Unique constraint failed. A record with this value already exists.'')"
    by (simp add: catch_def known_request_cases_P2002)
  have fallback: "code e \<notin> set (map fst known_request_cases) \<longrightarrow>
        catch (KnownRequestError e) =
          Inl (InternalServerErrorException ''An unexpected database error occurred.'')"
    using catch_outside_table by blast
  have validation:
    "catch (ValidationError msg) = Inl (BadRequestException (''Database validation error: '' @ msg))"
    by (simp add: catch_def)
  from same throws conflict fallback validation show ?thesis
    by (simp only: getStatus.simps simp_thms)
qed

theorem prisma_filter_maps_by_code_witness:
  "catch (KnownRequestError \<lparr>code = ''P2002'', message = ''Unique constraint failed on the fields: (id)''\<rparr>) =
     Inl (ConflictException ''Unique constraint failed. A record with this value already exists.'')
   \<and> catch (KnownRequestError \<lparr>code = ''P2002'', message = ''another message''\<rparr>) =
       catch (KnownRequestError \<lparr>code = ''P2002'', message = ''Unique constraint failed on the fields: (id)''\<rparr>)
   \<and> ''P9999'' \<notin> set (map fst known_request_cases)
   \<and> catch (KnownRequestError \<lparr>code = ''P9999'', message = ''unknown''\<rparr>) =
       Inl (InternalServerErrorException ''An unexpected database error occurred.'')
   \<and> catch (ValidationError ''Argument email is missing.'') =
       Inl (BadRequestException ''Database validation error: Argument email is missing.'')"
proof -
  let ?dup = "\<lparr>code = ''P2002'', message = ''Unique constraint failed on the fields: (id)''\<rparr>"
  let ?dup' = "\<lparr>code = ''P2002'', message = ''another message''\<rparr>"
  let ?unknown = "\<lparr>code = ''P9999'', message = ''unknown''\<rparr>"
  have conflict: "catch (KnownRequestError ?dup) =
      Inl (ConflictException ''Unique constraint failed. A record with this value already exists.'')"
    using prisma_filter_maps_by_code [where e = ?dup] by simp
  have same: "catch (KnownRequestError ?dup') = catch (KnownRequestError ?dup)"
    using prisma_filter_maps_by_code [where e = ?dup' and e' = ?dup] by simp
  have outside: "''P9999'' \<notin> set (map fst known_request_cases)"
    by (simp add: known_request_cases_def)
  have fallback: "catch (KnownRequestError ?unknown) =
      Inl (InternalServerErrorException ''An unexpected database error occurred.'')"
    using outside prisma_filter_maps_by_code [where e = ?unknown] by simp
  have validation: "catch (ValidationError ''Argument email is missing.'') =
      Inl (BadRequestException ''Database validation error: Argument email is missing.'')"
    using prisma_filter_maps_by_code [where msg = "''Argument email is missing.''"] by simp
  from conflict same outside fallback validation show ?thesis
    by blast
qed

section \<open>Properties of ClerkStrategy.validate\<close>

lemma js_split_nonempty: "js_split sep s \<noteq> []"
  by (induction s) (auto split: list.splits)

lemma validate_without_token:
  "bearer_token req = None \<or> bearer_token req = Some [] \<Longrightarrow>
     validate jwt_verify req = (Inl (UnauthorizedException ''No token provided''), [])"
  by (auto simp: validate_def)

lemma validate_rejected_token:
  "bearer_token req = Some token \<Longrightarrow> token \<noteq> [] \<Longrightarrow> jwt_verify token = Inl err \<Longrightarrow>
     fst (validate jwt_verify req) = Inl (UnauthorizedException ''Invalid token'')"
  by (simp add: validate_def)

text \<open>
  Claim C6. The per-request user sync is inactive: for every request whose bearer token
  verifies, \<^verbatim>\<open>validate\<close> returns the object whose only property is \<^verbatim>\<open>decodedToken\<close>,
  and all it did was verify the token. No request at all, whatever its outcome, makes
  \<^verbatim>\<open>validate\<close> call the injected \<^verbatim>\<open>UserService\<close> or write to the database.
\<close>

theorem validate_returns_token_without_sync:
  "(bearer_token req = Some token \<and> token \<noteq> [] \<and> jwt_verify token = Inr decodedToken \<longrightarrow>
      validate jwt_verify req = (Inr [(''decodedToken'', decodedToken)], [JwtVerify token]))
   \<and> list_all (\<lambda>e. \<not> is_user_sync e) (snd (validate jwt_verify req))"
  by (simp add: validate_def split: option.splits sum.splits)

theorem validate_returns_token_without_sync_witness:
  "bearer_token \<lparr>authorization = Some ''Bearer abc''\<rparr> = Some ''abc''
   \<and> validate (\<lambda>t. if t = ''abc'' then Inr (''user_1'', 42::nat) else Inl ''jwt malformed'')
        \<lparr>authorization = Some ''Bearer abc''\<rparr> =
       (Inr [(''decodedToken'', (''user_1'', 42))], [JwtVerify ''abc''])"
  using validate_returns_token_without_sync
    [of "\<lparr>authorization = Some ''Bearer abc''\<rparr>" "''abc''"
        "\<lambda>t. if t = ''abc'' then Inr (''user_1'', 42::nat) else Inl ''jwt malformed''"
        "(''user_1'', 42)"]
  by (simp add: bearer_token_def js_pop_def)

section \<open>Properties of UserService.createUser\<close>

lemma find_append_new: "find P xs = None \<Longrightarrow> P x \<Longrightarrow> find P (xs @ [x]) = Some x"
  by (induction xs) (auto split: if_splits)

lemma createUser_existing:
  "findUserById prisma clerkId = Some existing \<Longrightarrow>
     createUser email_unique now prisma clerkId webhookPayload =
       (Inr \<lparr>user = existing, toBeSynced = None\<rparr>, prisma)"
  by (simp add: createUser_def)

text \<open>
  The three ways a call can go: the user is there already; the create is refused; the
  create goes through and the new row, with the given id, is the last of the table.
\<close>

lemma createUser_cases:
  "(\<exists>existing. findUserById prisma clerkId = Some existing \<and>
       createUser email_unique now prisma clerkId webhookPayload =
         (Inr \<lparr>user = existing, toBeSynced = None\<rparr>, prisma))
   \<or> (\<exists>err w. findUserById prisma clerkId = None \<and>
       createUser email_unique now prisma clerkId webhookPayload =
         (Inl err, prisma\<lparr>writes := writes prisma @ [w]\<rparr>))
   \<or> (\<exists>row w. findUserById prisma clerkId = None \<and> user_id row = clerkId \<and>
       createUser email_unique now prisma clerkId webhookPayload =
         (Inr \<lparr>user = row, toBeSynced = None\<rparr>,
          prisma\<lparr>writes := writes prisma @ [w], users := users prisma @ [row]\<rparr>))"
  by (cases "findUserById prisma clerkId")
     (auto simp: createUser_def user_create_def findUserById_def Let_def)

lemma createUser_twice_users:
  "users (snd (createUser email_unique now'
                 (snd (createUser email_unique now prisma clerkId webhookPayload))
                 clerkId webhookPayload)) =
   users (snd (createUser email_unique now prisma clerkId webhookPayload))"
  using createUser_cases [of prisma clerkId email_unique now webhookPayload]
proof (elim disjE exE conjE)
  fix existing
  assume "findUserById prisma clerkId = Some existing"
    and "createUser email_unique now prisma clerkId webhookPayload =
           (Inr \<lparr>user = existing, toBeSynced = None\<rparr>, prisma)"
  then show ?thesis by (simp add: createUser_existing)
next
  fix err w
  assume none: "findUserById prisma clerkId = None"
    and first: "createUser email_unique now prisma clerkId webhookPayload =
           (Inl err, prisma\<lparr>writes := writes prisma @ [w]\<rparr>)"
  then show ?thesis
    by (auto simp: createUser_def user_create_def findUserById_def Let_def split: if_splits)
next
  fix row w
  assume none: "findUserById prisma clerkId = None" and rid: "user_id row = clerkId"
    and first: "createUser email_unique now prisma clerkId webhookPayload =
           (Inr \<lparr>user = row, toBeSynced = None\<rparr>,
            prisma\<lparr>writes := writes prisma @ [w], users := users prisma @ [row]\<rparr>)"
  have "findUserById (prisma\<lparr>writes := writes prisma @ [w], users := users prisma @ [row]\<rparr>)
          clerkId = Some row"
    using none rid by (simp add: findUserById_def find_append_new)
  then show ?thesis using first by (simp add: createUser_existing)
qed

lemma createUser_twice_same_result:
  assumes "fst (createUser email_unique now prisma clerkId webhookPayload) = Inr r"
  shows "createUser email_unique now'
           (snd (createUser email_unique now prisma clerkId webhookPayload))
           clerkId webhookPayload =
         (Inr r, snd (createUser email_unique now prisma clerkId webhookPayload))"
  using createUser_cases [of prisma clerkId email_unique now webhookPayload]
proof (elim disjE exE conjE)
  fix existing
  assume "findUserById prisma clerkId = Some existing"
    and "createUser email_unique now prisma clerkId webhookPayload =
           (Inr \<lparr>user = existing, toBeSynced = None\<rparr>, prisma)"
  then show ?thesis using assms by (simp add: createUser_existing)
next
  fix err w
  assume "createUser email_unique now prisma clerkId webhookPayload =
           (Inl err, prisma\<lparr>writes := writes prisma @ [w]\<rparr>)"
  then show ?thesis using assms by simp
next
  fix row w
  assume none: "findUserById prisma clerkId = None" and rid: "user_id row = clerkId"
    and first: "createUser email_unique now prisma clerkId webhookPayload =
           (Inr \<lparr>user = row, toBeSynced = None\<rparr>,
            prisma\<lparr>writes := writes prisma @ [w], users := users prisma @ [row]\<rparr>)"
  have "findUserById (prisma\<lparr>writes := writes prisma @ [w], users := users prisma @ [row]\<rparr>)
          clerkId = Some row"
    using none rid by (simp add: findUserById_def find_append_new)
  then show ?thesis using first assms by (simp add: createUser_existing)
qed

text \<open>
  Claim C9. \<^verbatim>\<open>createUser\<close> is idempotent. If a user with the given \<^verbatim>\<open>clerkId\<close> exists,
  the call returns that row as \<^verbatim>\<open>{ user }\<close> and leaves the database, its table and
  its record of write queries, exactly as it was: no create, no update. A second call
  with the same \<^verbatim>\<open>clerkId\<close> and payload, at any later time, leaves the user table as
  the first call left it; and when the first call returned a user, the second returns
  the same one and sends no write.
\<close>

theorem createUser_idempotent:
  "(findUserById prisma clerkId = Some existing \<longrightarrow>
      createUser email_unique now prisma clerkId webhookPayload =
        (Inr \<lparr>user = existing, toBeSynced = None\<rparr>, prisma))
   \<and> users (snd (createUser email_unique now'
                    (snd (createUser email_unique now prisma clerkId webhookPayload))
                    clerkId webhookPayload)) =
       users (snd (createUser email_unique now prisma clerkId webhookPayload))
   \<and> (fst (createUser email_unique now prisma clerkId webhookPayload) = Inr r \<longrightarrow>
        createUser email_unique now'
          (snd (createUser email_unique now prisma clerkId webhookPayload))
          clerkId webhookPayload =
        (Inr r, snd (createUser email_unique now prisma clerkId webhookPayload)))"
proof (intro conjI impI)
  assume "findUserById prisma clerkId = Some existing"
  then show "createUser email_unique now prisma clerkId webhookPayload =
               (Inr \<lparr>user = existing, toBeSynced = None\<rparr>, prisma)"
    by (rule createUser_existing)
next
  show "users (snd (createUser email_unique now'
                      (snd (createUser email_unique now prisma clerkId webhookPayload))
                      clerkId webhookPayload)) =
        users (snd (createUser email_unique now prisma clerkId webhookPayload))"
    by (rule createUser_twice_users)
next
  assume "fst (createUser email_unique now prisma clerkId webhookPayload) = Inr r"
  then show "createUser email_unique now'
               (snd (createUser email_unique now prisma clerkId webhookPayload))
               clerkId webhookPayload =
             (Inr r, snd (createUser email_unique now prisma clerkId webhookPayload))"
    by (rule createUser_twice_same_result)
qed

text \<open>
  At a concrete database: the payload's user is not there, the first call (at time 7)
  creates the row; the second call (at time 9) finds it, returns it and changes nothing.
\<close>

theorem createUser_idempotent_witness:
  "createUser True 7 \<lparr>users = [], writes = []\<rparr> ''user_1''
      \<lparr>email_addresses = Some [\<lparr>email_id = ''idn_1'', email_address = ''ada@example.com''\<rparr>],
       primary_email_address_id = Some ''idn_1'',
       first_name = Some ''Ada'', last_name = Some ''Lovelace''\<rparr> =
     (Inr \<lparr>user = \<lparr>user_id = ''user_1'', email = ''ada@example.com'',
                   name = Some ''Ada Lovelace'', createdAt = 7, updatedAt = 7\<rparr>,
           toBeSynced = None\<rparr>,
      \<lparr>users = [\<lparr>user_id = ''user_1'', email = ''ada@example.com'',
                  name = Some ''Ada Lovelace'', createdAt = 7, updatedAt = 7\<rparr>],
       writes = [UserCreate ''user_1'' ''ada@example.com'' (Some ''Ada Lovelace'')]\<rparr>)
   \<and> createUser True 9
        \<lparr>users = [\<lparr>user_id = ''user_1'', email = ''ada@example.com'',
                    name = Some ''Ada Lovelace'', createdAt = 7, updatedAt = 7\<rparr>],
         writes = [UserCreate ''user_1'' ''ada@example.com'' (Some ''Ada Lovelace'')]\<rparr>
        ''user_1''
        \<lparr>email_addresses = Some [\<lparr>email_id = ''idn_1'', email_address = ''ada@example.com''\<rparr>],
         primary_email_address_id = Some ''idn_1'',
         first_name = Some ''Ada'', last_name = Some ''Lovelace''\<rparr> =
     (Inr \<lparr>user = \<lparr>user_id = ''user_1'', email = ''ada@example.com'',
                   name = Some ''Ada Lovelace'', createdAt = 7, updatedAt = 7\<rparr>,
           toBeSynced = None\<rparr>,
      \<lparr>users = [\<lparr>user_id = ''user_1'', email = ''ada@example.com'',
                  name = Some ''Ada Lovelace'', createdAt = 7, updatedAt = 7\<rparr>],
       writes = [UserCreate ''user_1'' ''ada@example.com'' (Some ''Ada Lovelace'')]\<rparr>)"
proof -
  let ?payload =
    "\<lparr>email_addresses = Some [\<lparr>email_id = ''idn_1'', email_address = ''ada@example.com''\<rparr>],
      primary_email_address_id = Some ''idn_1'',
      first_name = Some ''Ada'', last_name = Some ''Lovelace''\<rparr>"
  let ?row = "\<lparr>user_id = ''user_1'', email = ''ada@example.com'',
               name = Some ''Ada Lovelace'', createdAt = 7, updatedAt = 7\<rparr>"
  let ?after = "\<lparr>users = [?row],
                 writes = [UserCreate ''user_1'' ''ada@example.com'' (Some ''Ada Lovelace'')]\<rparr>"
  have email: "extractEmailFromWebhook ?payload = ''ada@example.com''"
    by (simp add: extractEmailFromWebhook_def)
  have full_name: "extractNameFromWebhook ?payload = Some ''Ada Lovelace''"
    by (simp add: extractNameFromWebhook_def or_empty_def trim_def is_white_space_def)
  have first: "createUser True 7 \<lparr>users = [], writes = []\<rparr> ''user_1'' ?payload =
                 (Inr \<lparr>user = ?row, toBeSynced = None\<rparr>, ?after)"
    by (simp add: createUser_def findUserById_def user_create_def Let_def email full_name)
  have found: "findUserById ?after ''user_1'' = Some ?row"
    by (simp add: findUserById_def)
  have second: "createUser True 9 ?after ''user_1'' ?payload =
                  (Inr \<lparr>user = ?row, toBeSynced = None\<rparr>, ?after)"
    using found
      createUser_idempotent
        [where prisma = ?after and clerkId = "''user_1''" and existing = ?row
           and email_unique = True and now = 9 and webhookPayload = ?payload]
    by simp
  from first second show ?thesis by (rule conjI)
qed

section \<open>Properties of validateEnv\<close>

lemma failed_enum:
  "failed_constraints isURL [IsEnum Environment] v = [] \<longleftrightarrow>
     (\<exists>t. v = JsString t \<and> t \<in> {''development'', ''production'', ''test''})"
  by (cases v) (auto simp: failed_constraints_def Environment_def)

lemma failed_port:
  "failed_constraints isURL [IsNumber, Min 1] v = [] \<longleftrightarrow>
     (\<exists>q. v = JsNumber (Finite q) \<and> 1 \<le> q)"
  by (cases v) (auto simp: failed_constraints_def split: js_number.splits)

lemma failed_string:
  "failed_constraints isURL [IsString, IsNotEmpty] v = [] \<longleftrightarrow>
     (\<exists>t. v = JsString t \<and> t \<noteq> [])"
  by (cases v) (auto simp: failed_constraints_def)

lemma failed_url:
  "failed_constraints isURL [IsUrl, IsNotEmpty] v = [] \<longleftrightarrow>
     (\<exists>t. v = JsString t \<and> t \<noteq> [] \<and> isURL t)"
  by (cases v) (auto simp: failed_constraints_def)

lemma failed_optional_url:
  "failed_constraints isURL [IsUrl, IsOptional] v = [] \<longleftrightarrow>
     (v = JsUndefined \<or> v = JsNull \<or> (\<exists>t. v = JsString t \<and> isURL t))"
  by (cases v) (auto simp: failed_constraints_def)

lemma validateSync_no_errors:
  "validateSync isURL object = [] \<longleftrightarrow> every_constraint_holds isURL object"
  unfolding validateSync_def decorators_def every_constraint_holds_def
  by (simp add: Let_def failed_enum failed_port failed_string failed_url failed_optional_url
           del: insert_iff)

lemma validateEnv_total:
  "validateEnv plainToInstance isURL config = Inr (plainToInstance config)
   \<or> validateEnv plainToInstance isURL config = Inl (Error ''Invalid environment variables'')"
  by (simp add: validateEnv_def Let_def)

text \<open>
  Claim C7. \<^verbatim>\<open>validateEnv\<close> returns the transformed configuration object exactly when
  every class-validator constraint on \<^verbatim>\<open>EnvironmentVariables\<close> holds of it, and throws
  an \<^verbatim>\<open>Error\<close> with the message \<^verbatim>\<open>Invalid environment variables\<close> exactly when at
  least one fails. A property under \<^verbatim>\<open>IsOptional\<close> that is undefined or null counts as
  holding, as class-validator has it.
\<close>

theorem validateEnv_returns_iff_constraints_hold:
  "(validateEnv plainToInstance isURL config = Inr (plainToInstance config)
      \<longleftrightarrow> every_constraint_holds isURL (plainToInstance config))
   \<and> (validateEnv plainToInstance isURL config = Inl (Error ''Invalid environment variables'')
      \<longleftrightarrow> \<not> every_constraint_holds isURL (plainToInstance config))"
  by (simp add: validateEnv_def Let_def validateSync_no_errors)

text \<open>
  At concrete instances, with the transformation the identity and every string starting
  with \<^verbatim>\<open>http\<close> taken for a URL: a complete configuration is returned; the same
  configuration without \<^verbatim>\<open>DATABASE_URL\<close>, or with \<^verbatim>\<open>NODE_ENV\<close> set to \<^verbatim>\<open>staging\<close>, is
  refused.
\<close>

theorem validateEnv_returns_iff_constraints_hold_witness:
  "validateEnv (\<lambda>c. c) (\<lambda>t. take 4 t = ''http'')
     \<lparr>NODE_ENV = JsString ''production'', PORT = JsNumber (Finite 3000),
      DATABASE_URL = JsString ''postgres://db'', CLERK_PUBLISHABLE_KEY = JsString ''pk_test'',
      CLERK_SECRET_KEY = JsString ''sk_test'', CLERK_JWKS_URL = JsString ''https://clerk/jwks'',
      CLERK_WEBHOOK_SECRET = JsString ''whsec'', REDIS_URL = JsUndefined\<rparr> =
     Inr \<lparr>NODE_ENV = JsString ''production'', PORT = JsNumber (Finite 3000),
      DATABASE_URL = JsString ''postgres://db'', CLERK_PUBLISHABLE_KEY = JsString ''pk_test'',
      CLERK_SECRET_KEY = JsString ''sk_test'', CLERK_JWKS_URL = JsString ''https://clerk/jwks'',
      CLERK_WEBHOOK_SECRET = JsString ''whsec'', REDIS_URL = JsUndefined\<rparr>
   \<and> validateEnv (\<lambda>c. c) (\<lambda>t. take 4 t = ''http'')
     \<lparr>NODE_ENV = JsString ''production'', PORT = JsNumber (Finite 3000),
      DATABASE_URL = JsUndefined, CLERK_PUBLISHABLE_KEY = JsString ''pk_test'',
      CLERK_SECRET_KEY = JsString ''sk_test'', CLERK_JWKS_URL = JsString ''https://clerk/jwks'',
      CLERK_WEBHOOK_SECRET = JsString ''whsec'', REDIS_URL = JsUndefined\<rparr> =
     Inl (Error ''Invalid environment variables'')
   \<and> validateEnv (\<lambda>c. c) (\<lambda>t. take 4 t = ''http'')
     \<lparr>NODE_ENV = JsString ''staging'', PORT = JsNumber (Finite 3000),
      DATABASE_URL = JsString ''postgres://db'', CLERK_PUBLISHABLE_KEY = JsString ''pk_test'',
      CLERK_SECRET_KEY = JsString ''sk_test'', CLERK_JWKS_URL = JsString ''https://clerk/jwks'',
      CLERK_WEBHOOK_SECRET = JsString ''whsec'', REDIS_URL = JsUndefined\<rparr> =
     Inl (Error ''Invalid environment variables'')"
proof -
  let ?isURL = "\<lambda>t. take 4 t = ''http''"
  let ?good = "\<lparr>NODE_ENV = JsString ''production'', PORT = JsNumber (Finite 3000),
      DATABASE_URL = JsString ''postgres://db'', CLERK_PUBLISHABLE_KEY = JsString ''pk_test'',
      CLERK_SECRET_KEY = JsString ''sk_test'', CLERK_JWKS_URL = JsString ''https://clerk/jwks'',
      CLERK_WEBHOOK_SECRET = JsString ''whsec'', REDIS_URL = JsUndefined\<rparr>"
  let ?no_database = "?good\<lparr>DATABASE_URL := JsUndefined\<rparr>"
  let ?staging = "?good\<lparr>NODE_ENV := JsString ''staging''\<rparr>"
  have good: "every_constraint_holds ?isURL ?good"
    by (simp add: every_constraint_holds_def)
  have no_database: "\<not> every_constraint_holds ?isURL ?no_database"
    by (simp add: every_constraint_holds_def)
  have staging: "\<not> every_constraint_holds ?isURL ?staging"
    by (simp add: every_constraint_holds_def)
  have returned: "validateEnv (\<lambda>c. c) ?isURL ?good = Inr ?good"
    using good
      validateEnv_returns_iff_constraints_hold
        [where plainToInstance = "\<lambda>c. c" and isURL = ?isURL and config = ?good]
    by simp
  have refused1: "validateEnv (\<lambda>c. c) ?isURL ?no_database = Inl (Error ''Invalid environment variables'')"
    using no_database
      validateEnv_returns_iff_constraints_hold
        [where plainToInstance = "\<lambda>c. c" and isURL = ?isURL and config = ?no_database]
    by simp
  have refused2: "validateEnv (\<lambda>c. c) ?isURL ?staging = Inl (Error ''Invalid environment variables'')"
    using staging
      validateEnv_returns_iff_constraints_hold
        [where plainToInstance = "\<lambda>c. c" and isURL = ?isURL and config = ?staging]
    by simp
  from returned refused1 refused2 show ?thesis by simp
qed

end
